theory Spec2Isabelle
  imports Main "HOL-Library.AList"
begin

section \<open>Python values shared by the modules\<close>

text \<open>
  An article dictionary \<^verbatim>\<open>{"id": ..., "slug": ...}\<close> is a record with two fields. The
  identifiers are integers in the annotations of \<^verbatim>\<open>data_processor\<close> and whatever the site
  sends in \<^verbatim>\<open>api_client\<close> and \<^verbatim>\<open>main\<close>, so the record leaves their type open.
\<close>

record ('i, 's) post =
  post_id :: 'i
  post_slug :: 's

text \<open>
  The values \<^verbatim>\<open>response.json()\<close> can return. \<^verbatim>\<open>JNull\<close> is Python's \<^verbatim>\<open>None\<close>.
  Numbers are integers (a JSON number with a fraction is outside the model), strings are
  lists of characters with code points below 256, and an object is the association list
  of its distinct keys in the order of the document.
\<close>

datatype json =
    JNull
  | JBool bool
  | JNum int
  | JStr string
  | JArr "json list"
  | JObj "(string \<times> json) list"

text \<open>The exceptions of the source, by class.\<close>

datatype exc =
    KeyError
  | TypeError
  | ValueError
  | IndexError
  | NameError
  | AttributeError
  | RequestException

text \<open>Truth value testing: \<^verbatim>\<open>if x:\<close> and \<^verbatim>\<open>if not x:\<close>.\<close>

fun truthy :: "json \<Rightarrow> bool" where
  "truthy JNull = False"
| "truthy (JBool b) = b"
| "truthy (JNum n) = (n \<noteq> 0)"
| "truthy (JStr s) = (s \<noteq> [])"
| "truthy (JArr xs) = (xs \<noteq> [])"
| "truthy (JObj kvs) = (kvs \<noteq> [])"

text \<open>\<^verbatim>\<open>x[0]\<close>: the first element of a list, the first character of a string.\<close>

fun subscript0 :: "json \<Rightarrow> exc + json" where
  "subscript0 (JArr []) = Inl IndexError"
| "subscript0 (JArr (x # xs)) = Inr x"
| "subscript0 (JStr []) = Inl IndexError"
| "subscript0 (JStr (c # cs)) = Inr (JStr [c])"
| "subscript0 (JObj kvs) = Inl KeyError"
| "subscript0 JNull = Inl TypeError"
| "subscript0 (JBool b) = Inl TypeError"
| "subscript0 (JNum n) = Inl TypeError"

text \<open>\<^verbatim>\<open>x[key]\<close> with a string key: only an object can be read that way.\<close>

fun subscript :: "json \<Rightarrow> string \<Rightarrow> exc + json" where
  "subscript (JObj kvs) key =
     (case map_of kvs key of None \<Rightarrow> Inl KeyError | Some v \<Rightarrow> Inr v)"
| "subscript JNull key = Inl TypeError"
| "subscript (JBool b) key = Inl TypeError"
| "subscript (JNum n) key = Inl TypeError"
| "subscript (JStr s) key = Inl TypeError"
| "subscript (JArr xs) key = Inl TypeError"

text \<open>
  Python's \<^verbatim>\<open>==\<close> on these values, as \<^verbatim>\<open>x in some_list\<close> uses it: \<^verbatim>\<open>True == 1\<close> and
  \<^verbatim>\<open>False == 0\<close>, lists compare element by element, dictionaries compare as
  mappings whatever the order of their keys.
\<close>

fun py_eq :: "json \<Rightarrow> json \<Rightarrow> bool"
  and py_eq_list :: "json list \<Rightarrow> json list \<Rightarrow> bool"
  and obj_sub :: "(string \<times> json) list \<Rightarrow> (string \<times> json) list \<Rightarrow> bool"
  and obj_has :: "string \<Rightarrow> json \<Rightarrow> (string \<times> json) list \<Rightarrow> bool" where
  "py_eq JNull y = (y = JNull)"
| "py_eq (JBool a) y =
     (case y of JBool b \<Rightarrow> a = b | JNum n \<Rightarrow> n = (if a then 1 else 0) | _ \<Rightarrow> False)"
| "py_eq (JNum m) y =
     (case y of JBool b \<Rightarrow> m = (if b then 1 else 0) | JNum n \<Rightarrow> m = n | _ \<Rightarrow> False)"
| "py_eq (JStr s) y = (y = JStr s)"
| "py_eq (JArr xs) y = (case y of JArr ys \<Rightarrow> py_eq_list xs ys | _ \<Rightarrow> False)"
| "py_eq (JObj a) y =
     (case y of JObj b \<Rightarrow> length a = length b \<and> obj_sub a b | _ \<Rightarrow> False)"
| "py_eq_list [] ys = (ys = [])"
| "py_eq_list (x # xs) ys =
     (case ys of [] \<Rightarrow> False | y # ys' \<Rightarrow> py_eq x y \<and> py_eq_list xs ys')"
| "obj_sub [] b = True"
| "obj_sub ((k, v) # a) b = (obj_has k v b \<and> obj_sub a b)"
| "obj_has k v [] = False"
| "obj_has k v ((k', w) # b) = (if k = k' then py_eq v w else obj_has k v b)"

text \<open>\<^verbatim>\<open>x in xs\<close> for a list \<^verbatim>\<open>xs\<close>.\<close>

definition py_in :: "json \<Rightarrow> json list \<Rightarrow> bool" where
  "py_in x xs = list_ex (py_eq x) xs"

section \<open>Strings\<close>

text \<open>
  \<^verbatim>\<open>str.isspace\<close> on one character, for code points below 256: the ASCII white space,
  the separators \<^verbatim>\<open>\x1c\<close> to \<^verbatim>\<open>\x1f\<close>, \<^verbatim>\<open>\x85\<close> and the no-break space.
\<close>

definition py_isspace :: "char \<Rightarrow> bool" where
  "py_isspace c =
     (let n = of_char c :: nat
      in (9 \<le> n \<and> n \<le> 13) \<or> (28 \<le> n \<and> n \<le> 32) \<or> n = 133 \<or> n = 160)"

text \<open>\<^verbatim>\<open>s.strip()\<close>.\<close>

definition py_strip :: "string \<Rightarrow> string" where
  "py_strip s = rev (dropWhile py_isspace (rev (dropWhile py_isspace s)))"

definition ascii_digit :: "char \<Rightarrow> bool" where
  "ascii_digit c = (let n = of_char c :: nat in 48 \<le> n \<and> n \<le> 57)"

text \<open>
  \<^verbatim>\<open>str.isdigit\<close>: below 256 the characters with the Unicode property \<^emph>\<open>digit\<close> are
  the ten ASCII digits and the superscripts two, three and one (\<^verbatim>\<open>\xb2\<close>,
  \<^verbatim>\<open>\xb3\<close>, \<^verbatim>\<open>\xb9\<close>). The empty string is not a digit string.
\<close>

definition py_isdigit_char :: "char \<Rightarrow> bool" where
  "py_isdigit_char c =
     (let n = of_char c :: nat in (48 \<le> n \<and> n \<le> 57) \<or> n = 178 \<or> n = 179 \<or> n = 185)"

definition py_isdigit :: "string \<Rightarrow> bool" where
  "py_isdigit s = (s \<noteq> [] \<and> list_all py_isdigit_char s)"

text \<open>The value of a string of ASCII digits.\<close>

definition digit_value :: "char \<Rightarrow> int" where
  "digit_value c = int (of_char c) - 48"

definition decimal_value :: "string \<Rightarrow> int" where
  "decimal_value s = foldl (\<lambda>a c. 10 * a + digit_value c) 0 s"

text \<open>
  The digits of \<^verbatim>\<open>int(s)\<close> after the sign: ASCII digits, with single underscores allowed
  between two digits.
\<close>

fun int_body :: "string \<Rightarrow> bool" where
  "int_body [] = False"
| "int_body [c] = ascii_digit c"
| "int_body (c # d # s) =
     (ascii_digit c \<and> (if d = CHR ''_'' then int_body s else int_body (d # s)))"

text \<open>
  \<^verbatim>\<open>int(s)\<close> for a string: surrounding white space is dropped, a sign is allowed, anything
  else than decimal digits raises \<^verbatim>\<open>ValueError\<close>. (The bound that recent interpreters put
  on the number of digits is not modelled.)
\<close>

definition py_int :: "string \<Rightarrow> exc + int" where
  "py_int s =
     (let s1 = py_strip s;
          neg = (s1 \<noteq> [] \<and> hd s1 = CHR ''-'');
          s2 = (if s1 \<noteq> [] \<and> (hd s1 = CHR ''-'' \<or> hd s1 = CHR ''+'') then tl s1 else s1)
      in if int_body s2
         then Inr ((if neg then - 1 else 1) * decimal_value (filter (\<lambda>c. c \<noteq> CHR ''_'') s2))
         else Inl ValueError)"

text \<open>\<^verbatim>\<open>str(n)\<close> for an integer.\<close>

definition digit_char :: "nat \<Rightarrow> char" where
  "digit_char d = char_of (48 + d)"

function str_nat :: "nat \<Rightarrow> string" where
  "str_nat n = (if n < 10 then [digit_char n] else str_nat (n div 10) @ [digit_char (n mod 10)])"
  by pat_completeness auto
termination
  by (relation "measure (\<lambda>n. n)") auto

definition str_int :: "int \<Rightarrow> string" where
  "str_int i = (if i < 0 then CHR ''-'' # str_nat (nat (- i)) else str_nat (nat i))"

text \<open>\<^verbatim>\<open>s.split(sep)\<close> for a separator of one character.\<close>

fun py_split :: "char \<Rightarrow> string \<Rightarrow> string list" where
  "py_split sep [] = [[]]"
| "py_split sep (c # cs) =
     (if c = sep then [] # py_split sep cs
      else case py_split sep cs of
             [] \<Rightarrow> [[c]]
           | w # ws \<Rightarrow> (c # w) # ws)"

text \<open>\<^verbatim>\<open>sep.join(xs)\<close>.\<close>

fun py_join :: "string \<Rightarrow> string list \<Rightarrow> string" where
  "py_join sep [] = []"
| "py_join sep [x] = x"
| "py_join sep (x # y # ys) = x @ sep @ py_join sep (y # ys)"

section \<open>Formatting values\<close>

definition hex_digit :: "nat \<Rightarrow> char" where
  "hex_digit d = (if d < 10 then char_of (48 + d) else char_of (87 + d))"

text \<open>
  \<^verbatim>\<open>repr\<close> of a string: single quotes, unless the string holds a single quote and no
  double quote; the quote and the backslash are escaped, tab and line ends have their
  letters, and the characters that are not printable are written \<^verbatim>\<open>\xhh\<close>.
\<close>

definition repr_char :: "char \<Rightarrow> char \<Rightarrow> string" where
  "repr_char quote c =
     (let n = of_char c :: nat
      in if c = quote \<or> c = CHR 0x5C then [CHR 0x5C, c]
         else if n = 9 then [CHR 0x5C, CHR ''t'']
         else if n = 10 then [CHR 0x5C, CHR ''n'']
         else if n = 13 then [CHR 0x5C, CHR ''r'']
         else if n < 32 \<or> (127 \<le> n \<and> n \<le> 160) \<or> n = 173
         then [CHR 0x5C, CHR ''x'', hex_digit (n div 16), hex_digit (n mod 16)]
         else [c])"

definition repr_str :: "string \<Rightarrow> string" where
  "repr_str s =
     (let quote = (if CHR 0x27 \<in> set s \<and> CHR 0x22 \<notin> set s then CHR 0x22 else CHR 0x27)
      in quote # concat (map (repr_char quote) s) @ [quote])"

text \<open>\<^verbatim>\<open>repr(x)\<close> and \<^verbatim>\<open>str(x)\<close>, which an f-string and \<^verbatim>\<open>map(str, ...)\<close> use.\<close>

fun py_repr :: "json \<Rightarrow> string" where
  "py_repr JNull = ''None''"
| "py_repr (JBool b) = (if b then ''True'' else ''False'')"
| "py_repr (JNum n) = str_int n"
| "py_repr (JStr s) = repr_str s"
| "py_repr (JArr xs) = ''['' @ py_join '', '' (map py_repr xs) @ '']''"
| "py_repr (JObj kvs) =
     ''{'' @ py_join '', '' (map (\<lambda>kv. repr_str (fst kv) @ '': '' @ py_repr (snd kv)) kvs) @ ''}''"

definition py_str :: "json \<Rightarrow> string" where
  "py_str x = (case x of JStr s \<Rightarrow> s | _ \<Rightarrow> py_repr x)"

section \<open>Dictionaries\<close>

text \<open>
  What a dictionary needs of its keys: their equality \<^verbatim>\<open>==\<close>, whether they can be hashed
  (a key that cannot raises \<^verbatim>\<open>TypeError\<close>), and their \<^verbatim>\<open>str\<close> for the report.
\<close>

record 'k key_ops =
  key_eq :: "'k \<Rightarrow> 'k \<Rightarrow> bool"
  hashable :: "'k \<Rightarrow> bool"
  key_str :: "'k \<Rightarrow> string"

text \<open>Integer keys, as the type annotations of the module have them.\<close>

definition int_keys :: "int key_ops" where
  "int_keys = \<lparr>key_eq = (=), hashable = (\<lambda>k. True), key_str = str_int\<rparr>"

text \<open>
  The values of the site as dictionary keys: lists and dictionaries cannot be hashed.
\<close>

definition json_hashable :: "json \<Rightarrow> bool" where
  "json_hashable x = (case x of JArr xs \<Rightarrow> False | JObj kvs \<Rightarrow> False | _ \<Rightarrow> True)"

definition json_keys :: "json key_ops" where
  "json_keys = \<lparr>key_eq = py_eq, hashable = json_hashable, key_str = py_str\<rparr>"

text \<open>
  \<^verbatim>\<open>d.get(k)\<close> and \<^verbatim>\<open>d[k] = v\<close> on the list of items: the first item whose key equals
  \<open>k\<close> is read or has its value replaced (the key object stays), and a new key goes to the
  end.
\<close>

fun dict_find :: "'k key_ops \<Rightarrow> ('k \<times> 'v) list \<Rightarrow> 'k \<Rightarrow> 'v option" where
  "dict_find K [] k = None"
| "dict_find K ((k', v) # d) k = (if key_eq K k' k then Some v else dict_find K d k)"

fun dict_put :: "'k key_ops \<Rightarrow> 'k \<Rightarrow> 'v \<Rightarrow> ('k \<times> 'v) list \<Rightarrow> ('k \<times> 'v) list" where
  "dict_put K k v [] = [(k, v)]"
| "dict_put K k v ((k', v') # d) =
     (if key_eq K k' k then (k', v) # d else (k', v') # dict_put K k v d)"

section \<open>The site\<close>

text \<open>
  The site, as the program sees it: what the HTTP request number \<open>t\<close> of the run, to a
  given URL, is answered with. \<^verbatim>\<open>Failed\<close> stands for \<^verbatim>\<open>requests.get\<close> or
  \<^verbatim>\<open>raise_for_status\<close> raising a \<^verbatim>\<open>RequestException\<close>; a reply carries the
  \<^verbatim>\<open>X-WP-TotalPages\<close> header when present and the decoded body, \<^verbatim>\<open>None\<close> when the
  body is not JSON (\<^verbatim>\<open>response.json()\<close> then raises the \<^verbatim>\<open>JSONDecodeError\<close> of
  \<^verbatim>\<open>requests\<close>, a \<^verbatim>\<open>RequestException\<close>). Every call of \<^verbatim>\<open>requests.get\<close> advances
  the request counter by one; \<^verbatim>\<open>time.sleep\<close> only waits.
\<close>

datatype reply = Failed | Reply "string option" "json option"

type_synonym net = "nat \<Rightarrow> string \<Rightarrow> reply"

text \<open>\<^verbatim>\<open>response = requests.get(url); response.raise_for_status(); response.json()\<close>.\<close>

definition get_json :: "net \<Rightarrow> nat \<Rightarrow> string \<Rightarrow> exc + json" where
  "get_json net t url =
     (case net t url of
        Failed \<Rightarrow> Inl RequestException
      | Reply h None \<Rightarrow> Inl RequestException
      | Reply h (Some b) \<Rightarrow> Inr b)"

section \<open>core/api_client.py\<close>

text \<open>
  \<^verbatim>\<open>_make_request\<close>: up to \<^verbatim>\<open>max_attempts\<close> requests; the first one that does not raise
  is returned with its header and body, and \<^verbatim>\<open>None\<close> when all have failed.
\<close>

fun make_request_attempts ::
  "net \<Rightarrow> string \<Rightarrow> nat \<Rightarrow> nat \<Rightarrow> nat \<Rightarrow> (string option \<times> json option) option \<times> nat" where
  "make_request_attempts net url max_attempts 0 t = (None, t)"
| "make_request_attempts net url max_attempts (Suc remaining) t =
     (let attempt = max_attempts - Suc remaining
      in case net t url of
           Reply h b \<Rightarrow> (Some (h, b), t + 1)
         | Failed \<Rightarrow>
             if int attempt < int max_attempts - 1
             then make_request_attempts net url max_attempts remaining (t + 1)
             else (None, t + 1))"

definition make_request ::
  "net \<Rightarrow> string \<Rightarrow> nat \<Rightarrow> (string option \<times> json option) option \<times> nat" where
  "make_request net url t = make_request_attempts net url 3 3 t"

text \<open>\<^verbatim>\<open>f"{base_url}/wp-json/wp/v2/posts?per_page={per_page}&page={page}"\<close>.\<close>

definition page_url :: "string \<Rightarrow> int \<Rightarrow> int \<Rightarrow> string" where
  "page_url base_url per_page page =
     base_url @ ''/wp-json/wp/v2/posts?per_page='' @ str_int per_page
       @ ''&page='' @ str_int page"

text \<open>\<^verbatim>\<open>response.json()\<close> on a response that was returned.\<close>

definition response_json :: "string option \<times> json option \<Rightarrow> exc + json" where
  "response_json r = (case snd r of None \<Rightarrow> Inl RequestException | Some b \<Rightarrow> Inr b)"

text \<open>
  What \<^verbatim>\<open>for post in posts\<close> runs over: the elements of a list, the keys of a
  dictionary, the characters of a string; anything else is not iterable.
\<close>

fun iterate :: "json \<Rightarrow> exc + json list" where
  "iterate (JArr xs) = Inr xs"
| "iterate (JObj kvs) = Inr (map (\<lambda>kv. JStr (fst kv)) kvs)"
| "iterate (JStr s) = Inr (map (\<lambda>c. JStr [c]) s)"
| "iterate JNull = Inl TypeError"
| "iterate (JBool b) = Inl TypeError"
| "iterate (JNum n) = Inl TypeError"

text \<open>
  \<^verbatim>\<open>for post in posts: all_posts.append({"id": post["id"], "slug": post["slug"]})\<close>
  on the elements of one page.
\<close>

fun append_posts ::
  "(json, json) post list \<Rightarrow> json list \<Rightarrow> exc + (json, json) post list" where
  "append_posts all_posts [] = Inr all_posts"
| "append_posts all_posts (p # ps) =
     (case subscript p ''id'' of
        Inl e \<Rightarrow> Inl e
      | Inr i \<Rightarrow>
          (case subscript p ''slug'' of
             Inl e \<Rightarrow> Inl e
           | Inr s \<Rightarrow> append_posts (all_posts @ [\<lparr>post_id = i, post_slug = s\<rparr>]) ps))"

definition collect_page ::
  "(json, json) post list \<Rightarrow> json \<Rightarrow> exc + (json, json) post list" where
  "collect_page all_posts posts =
     (case iterate posts of Inl e \<Rightarrow> Inl e | Inr ps \<Rightarrow> append_posts all_posts ps)"

text \<open>
  The loop \<^verbatim>\<open>while page <= (total_pages or 1)\<close> over the pages after the first. A failed
  request and a falsy body leave the loop with the articles collected so far; an
  exception leaves the \<^verbatim>\<open>try\<close> block.
\<close>

function remaining_pages ::
  "net \<Rightarrow> string \<Rightarrow> int \<Rightarrow> int \<Rightarrow> int \<Rightarrow> (json, json) post list \<Rightarrow> nat \<Rightarrow>
   (exc + (json, json) post list) \<times> nat" where
  "remaining_pages net base_url per_page total_pages page all_posts t =
     (if page \<le> (if total_pages \<noteq> 0 then total_pages else 1) then
        (case make_request net (page_url base_url per_page page) t of
           (None, t') \<Rightarrow> (Inr all_posts, t')
         | (Some response, t') \<Rightarrow>
             (case response_json response of
                Inl e \<Rightarrow> (Inl e, t')
              | Inr posts \<Rightarrow>
                  if \<not> truthy posts then (Inr all_posts, t')
                  else
                    (case collect_page all_posts posts of
                       Inl e \<Rightarrow> (Inl e, t')
                     | Inr all_posts' \<Rightarrow>
                         remaining_pages net base_url per_page total_pages (page + 1)
                           all_posts' t')))
      else (Inr all_posts, t))"
  by pat_completeness auto
termination
  by (relation "measure (\<lambda>(net, base_url, per_page, total_pages, page, all_posts, t).
        nat ((if total_pages \<noteq> 0 then total_pages else 1) + 1 - page))") auto

text \<open>
  The \<^verbatim>\<open>try\<close> block of \<^verbatim>\<open>get_all_posts\<close>. The header \<^verbatim>\<open>X-WP-TotalPages\<close> is read with
  \<^verbatim>\<open>int\<close> when it is present and not empty.
\<close>

definition get_all_posts_try ::
  "net \<Rightarrow> string \<Rightarrow> int \<Rightarrow> nat \<Rightarrow> (exc + (json, json) post list) \<times> nat" where
  "get_all_posts_try net base_url per_page t =
     (case make_request net (page_url base_url per_page 1) t of
        (None, t') \<Rightarrow> (Inr [], t')
      | (Some response, t') \<Rightarrow>
          (case (case fst response of
                   None \<Rightarrow> Inr 1
                 | Some h \<Rightarrow> if h \<noteq> [] then py_int h else Inr 1) of
             Inl e \<Rightarrow> (Inl e, t')
           | Inr total_pages \<Rightarrow>
               (case response_json response of
                  Inl e \<Rightarrow> (Inl e, t')
                | Inr posts \<Rightarrow>
                    if \<not> truthy posts then (Inr [], t')
                    else
                      (case collect_page [] posts of
                         Inl e \<Rightarrow> (Inl e, t')
                       | Inr all_posts \<Rightarrow>
                           remaining_pages net base_url per_page total_pages 2 all_posts t'))))"

text \<open>\<^verbatim>\<open>get_all_posts\<close>: any exception of the \<^verbatim>\<open>try\<close> block is logged and gives \<^verbatim>\<open>[]\<close>.\<close>

definition get_all_posts ::
  "net \<Rightarrow> string \<Rightarrow> int \<Rightarrow> nat \<Rightarrow> (json, json) post list \<times> nat" where
  "get_all_posts net base_url per_page t =
     (case get_all_posts_try net base_url per_page t of
        (Inl e, t') \<Rightarrow> ([], t')
      | (Inr all_posts, t') \<Rightarrow> (all_posts, t'))"

section \<open>core/api_client.py: get_post_content\<close>

text \<open>
  \<^verbatim>\<open>get_post_content\<close>: the rendered content and the \<^verbatim>\<open>acf\<close> block of an article, and
  \<^verbatim>\<open>("", {})\<close> when the request fails or the body has another shape.
\<close>

definition get_post_content :: "net \<Rightarrow> string \<Rightarrow> json \<Rightarrow> nat \<Rightarrow> (json \<times> json) \<times> nat" where
  "get_post_content net base_url pid t =
     (case make_request net (base_url @ ''/wp-json/wp/v2/posts/'' @ py_str pid) t of
        (None, t') \<Rightarrow> ((JStr [], JObj []), t')
      | (Some response, t') \<Rightarrow>
          (case response_json response of
             Inl e \<Rightarrow> ((JStr [], JObj []), t')
           | Inr post_data \<Rightarrow>
               (case subscript post_data ''content'' of
                  Inl e \<Rightarrow> ((JStr [], JObj []), t')
                | Inr c \<Rightarrow>
                    (case subscript c ''rendered'' of
                       Inl e \<Rightarrow> ((JStr [], JObj []), t')
                     | Inr content \<Rightarrow>
                         (case post_data of
                            JObj kvs \<Rightarrow>
                              ((content, (case map_of kvs ''acf'' of
                                            None \<Rightarrow> JObj [] | Some acf \<Rightarrow> acf)), t')
                          | _ \<Rightarrow> ((JStr [], JObj []), t'))))))"

section \<open>core/link_extractor.py: extract_internal_links\<close>

text \<open>
  Lower case of one character, for code points below 256: the ASCII capitals and the
  Latin-1 capitals (\<^verbatim>\<open>\xc0\<close> to \<^verbatim>\<open>\xde\<close> without the multiplication sign). Two
  characters match under \<^verbatim>\<open>re.IGNORECASE\<close> when their lower cases are equal.
\<close>

definition py_lower_char :: "char \<Rightarrow> char" where
  "py_lower_char c =
     (let n = of_char c :: nat
      in if (65 \<le> n \<and> n \<le> 90) \<or> (192 \<le> n \<and> n \<le> 222 \<and> n \<noteq> 215)
         then char_of (n + 32) else c)"

definition py_lower :: "string \<Rightarrow> string" where
  "py_lower s = map py_lower_char s"

text \<open>
  A literal of the pattern at the start of the text, whatever the case: the text that
  follows it.
\<close>

fun ci_prefix :: "string \<Rightarrow> string \<Rightarrow> string option" where
  "ci_prefix [] s = Some s"
| "ci_prefix (p # ps) [] = None"
| "ci_prefix (p # ps) (c # cs) =
     (if py_lower_char p = py_lower_char c then ci_prefix ps cs else None)"

text \<open>
  The end of the pattern, \<^verbatim>\<open>([^"]*?)".*?>\<close>: the group runs to the next double quote
  (it cannot hold one), then the characters to the next \<^verbatim>\<open>>\<close> must not hold a line
  feed, which the dot does not match. The result is the group and the text after the
  match.
\<close>

definition match_tail :: "string \<Rightarrow> (string \<times> string) option" where
  \<open>match_tail s =
     (let captured = takeWhile (\<lambda>c. c \<noteq> CHR 0x22) s;
          r = dropWhile (\<lambda>c. c \<noteq> CHR 0x22) s
      in case r of
           [] \<Rightarrow> None
         | q # r' \<Rightarrow>
             (let skipped = takeWhile (\<lambda>c. c \<noteq> CHR ''>'') r';
                  r'' = dropWhile (\<lambda>c. c \<noteq> CHR ''>'') r'
              in if r'' = [] \<or> CHR 0x0A \<in> set skipped then None
                 else Some (captured, tl r'')))\<close>

text \<open>
  The two optional groups \<^verbatim>\<open>(?:https?://)?(?:www\.)?\<close>, in the order in which the
  matcher tries them: each group is tried present before absent.
\<close>

definition optional_prefixes :: "string list" where
  "optional_prefixes =
     [''https://www.'', ''https://'', ''http://www.'', ''http://'', ''www.'', '''']"

fun first_match :: "string \<Rightarrow> string \<Rightarrow> string list \<Rightarrow> (string \<times> string) option" where
  "first_match base s [] = None"
| "first_match base s (p # ps) =
     (case ci_prefix (p @ base) s of
        None \<Rightarrow> first_match base s ps
      | Some r \<Rightarrow>
          (case match_tail r of
             None \<Rightarrow> first_match base s ps
           | Some m \<Rightarrow> Some m))"

text \<open>
  A match of the whole pattern at the start of the text. \<^verbatim>\<open>re.escape\<close> makes the base
  URL a literal.
\<close>

definition match_here :: "string \<Rightarrow> string \<Rightarrow> (string \<times> string) option" where
  \<open>match_here base s =
     (case ci_prefix (''<a href='' @ [CHR 0x22]) s of
        None \<Rightarrow> None
      | Some r \<Rightarrow> first_match base r optional_prefixes)\<close>

lemma ci_prefix_length: "ci_prefix p s = Some r \<Longrightarrow> length r \<le> length s"
  by (induction p s rule: ci_prefix.induct) (auto split: if_splits)

lemma match_tail_length: "match_tail s = Some (c, r) \<Longrightarrow> length r < length s"
proof -
  assume m: "match_tail s = Some (c, r)"
  let ?q = "dropWhile (\<lambda>c. c \<noteq> CHR 0x22) s"
  from m obtain q r' where q: "?q = q # r'"
    by (cases ?q) (auto simp: match_tail_def)
  let ?g = "dropWhile (\<lambda>c. c \<noteq> CHR ''>'') r'"
  from m q have r: "r = tl ?g" and ne: "?g \<noteq> []"
    by (auto simp: match_tail_def Let_def split: if_splits)
  have "length ?g \<le> length r'" by (rule length_dropWhile_le)
  moreover have "length ?q \<le> length s" by (rule length_dropWhile_le)
  ultimately show ?thesis using q r ne by (cases ?g) auto
qed

lemma first_match_length: "first_match base s ps = Some (c, r) \<Longrightarrow> length r < length s"
proof (induction ps)
  case Nil
  then show ?case by simp
next
  case (Cons p ps)
  then show ?case
    by (auto split: option.splits dest!: ci_prefix_length match_tail_length)
qed

lemma match_here_length: "match_here base s = Some (c, r) \<Longrightarrow> length r < length s"
  by (auto simp: match_here_def split: option.splits
      dest!: ci_prefix_length first_match_length)

text \<open>
  \<^verbatim>\<open>re.findall(regex, post_content, re.IGNORECASE)\<close>: the groups of the matches found from
  left to right, each search starting where the match before ended.
\<close>

function re_findall :: "string \<Rightarrow> string \<Rightarrow> string list" where
  "re_findall base [] = []"
| "re_findall base (c # cs) =
     (case match_here base (c # cs) of
        None \<Rightarrow> re_findall base cs
      | Some (captured, rest) \<Rightarrow> captured # re_findall base rest)"
  by pat_completeness auto
termination
  by (relation "measure (\<lambda>(base, s). length s)") (auto dest: match_here_length)

text \<open>
  \<^verbatim>\<open>ipaddress.ip_address(hostname)\<close> on a string, as far as \<^verbatim>\<open>urlsplit\<close> needs it: whether
  the string is an IPv4 address (four decimal octets up to 255, without leading zeros) and
  whether it is an IPv6 address (up to eight groups of one to four hexadecimal digits, one
  \<^verbatim>\<open>::\<close> at most, an IPv4 address allowed as last group, a scope after \<^verbatim>\<open>%\<close>).
\<close>

definition ascii_hex :: "char \<Rightarrow> bool" where
  "ascii_hex c =
     (let n = of_char c :: nat
      in (48 \<le> n \<and> n \<le> 57) \<or> (65 \<le> n \<and> n \<le> 70) \<or> (97 \<le> n \<and> n \<le> 102))"

definition valid_octet :: "string \<Rightarrow> bool" where
  "valid_octet s =
     (s \<noteq> [] \<and> list_all ascii_digit s \<and> length s \<le> 3
      \<and> (if hd s = CHR ''0'' then s = ''0'' else True)
      \<and> decimal_value s \<le> 255)"

definition valid_ipv4 :: "string \<Rightarrow> bool" where
  "valid_ipv4 s =
     (CHR ''/'' \<notin> set s \<and> s \<noteq> []
      \<and> length (py_split CHR ''.'' s) = 4 \<and> list_all valid_octet (py_split CHR ''.'' s))"

definition valid_hextet :: "string \<Rightarrow> bool" where
  "valid_hextet s = (list_all ascii_hex s \<and> length s \<le> 4 \<and> s \<noteq> [])"

text \<open>
  \<^verbatim>\<open>_ip_int_from_string\<close> of an IPv6 address, for its checks: \<open>parts\<close> is the list of
  groups (an IPv4 suffix replaced by two groups), \<open>skips\<close> the inner groups that are empty.
\<close>

definition valid_ipv6_parts :: "string list \<Rightarrow> bool" where
  "valid_ipv6_parts parts =
     (case filter (\<lambda>i. parts ! i = []) [1 ..< length parts - 1] of
        [] \<Rightarrow> length parts = 8 \<and> list_all valid_hextet parts
      | [skip_index] \<Rightarrow>
          (let parts_hi = (if parts ! 0 = [] then skip_index - 1 else skip_index);
               parts_lo = (if last parts = [] then length parts - skip_index - 2
                           else length parts - skip_index - 1)
           in (if parts ! 0 = [] then parts_hi = 0 else True)
              \<and> (if last parts = [] then parts_lo = 0 else True)
              \<and> parts_hi + parts_lo < 8
              \<and> list_all valid_hextet (take parts_hi parts)
              \<and> list_all valid_hextet (drop (length parts - parts_lo) parts))
      | _ \<Rightarrow> False)"

definition valid_ipv6 :: "string \<Rightarrow> bool" where
  "valid_ipv6 s =
     (let addr = takeWhile (\<lambda>c. c \<noteq> CHR ''%'') s;
          scope = drop 1 (dropWhile (\<lambda>c. c \<noteq> CHR ''%'') s);
          parts0 = py_split CHR '':'' addr;
          parts = (if CHR ''.'' \<in> set (last parts0) then butlast parts0 @ [''0'', ''0'']
                   else parts0)
      in CHR ''/'' \<notin> set s
         \<and> (if CHR ''%'' \<in> set s then scope \<noteq> [] \<and> CHR ''%'' \<notin> set scope else True)
         \<and> addr \<noteq> []
         \<and> 3 \<le> length parts0
         \<and> (if CHR ''.'' \<in> set (last parts0) then valid_ipv4 (last parts0) else True)
         \<and> length parts \<le> 9
         \<and> valid_ipv6_parts parts)"

text \<open>
  \<^verbatim>\<open>_check_bracketed_host\<close>: a host that starts with \<^verbatim>\<open>v\<close> must match
  \<^verbatim>\<open>v[a-fA-F0-9]+\..+\<close>; any other must be an IPv6 address.
\<close>

definition valid_bracketed_host :: "string \<Rightarrow> bool" where
  "valid_bracketed_host hostname =
     (if take 1 hostname = ''v'' then
        (let digits = takeWhile ascii_hex (drop 1 hostname);
             rest = dropWhile ascii_hex (drop 1 hostname)
         in digits \<noteq> [] \<and> take 1 rest = ''.'' \<and> 2 \<le> length rest)
      else if valid_ipv4 hostname then False
      else valid_ipv6 hostname)"

text \<open>The schemes of \<^verbatim>\<open>uses_params\<close>, for which \<^verbatim>\<open>urlparse\<close> splits the parameters off.\<close>

definition uses_params :: "string list" where
  "uses_params =
     ['''', ''ftp'', ''hdl'', ''prospero'', ''http'', ''imap'', ''https'', ''shttp'',
      ''rtsp'', ''rtsps'', ''rtspu'', ''sip'', ''sips'', ''mms'', ''sftp'', ''tel'']"

text \<open>
  \<^verbatim>\<open>_splitparams\<close>, first component: the path up to the first semicolon of its last
  segment.
\<close>

definition split_params :: "string \<Rightarrow> string" where
  "split_params url =
     (let final = rev (takeWhile (\<lambda>c. c \<noteq> CHR ''/'') (rev url))
      in take (length url - length final) url @ takeWhile (\<lambda>c. c \<noteq> CHR '';'') final)"

text \<open>
  \<^verbatim>\<open>urlparse(link).path\<close>, after \<^verbatim>\<open>urlsplit\<close> and \<^verbatim>\<open>urlparse\<close> of CPython 3.11: leading
  control characters and spaces are dropped, tabs and line ends are removed, a scheme (a
  letter, then letters, digits, \<^verbatim>\<open>+\<close>, \<^verbatim>\<open>-\<close>, \<^verbatim>\<open>.\<close>, before the first colon) is split off,
  then a network location after \<^verbatim>\<open>//\<close>, then the fragment and the query, and last the
  parameters when the scheme has some. A network location with one square bracket and not
  the other, or with a bracketed host that is not valid, raises \<^verbatim>\<open>ValueError\<close>. (The check
  of \<^verbatim>\<open>_checknetloc\<close> rejects no network location whose characters are below 256.)
\<close>

definition ascii_alpha :: "char \<Rightarrow> bool" where
  "ascii_alpha c = (let n = of_char c :: nat in (65 \<le> n \<and> n \<le> 90) \<or> (97 \<le> n \<and> n \<le> 122))"

definition scheme_char :: "char \<Rightarrow> bool" where
  "scheme_char c =
     (ascii_alpha c \<or> ascii_digit c \<or> c = CHR ''+'' \<or> c = CHR ''-'' \<or> c = CHR ''.'')"

definition urlparse_path :: "string \<Rightarrow> exc + string" where
  "urlparse_path link =
     (let url0 = dropWhile (\<lambda>c. (of_char c :: nat) \<le> 32) link;
          url1 = filter (\<lambda>c. c \<noteq> CHR 0x09 \<and> c \<noteq> CHR 0x0A \<and> c \<noteq> CHR 0x0D) url0;
          prefix = takeWhile (\<lambda>c. c \<noteq> CHR '':'') url1;
          has_scheme = (CHR '':'' \<in> set url1 \<and> prefix \<noteq> [] \<and> ascii_alpha (hd prefix)
                        \<and> list_all scheme_char prefix);
          scheme = (if has_scheme then py_lower prefix else []);
          url2 = (if has_scheme then drop 1 (dropWhile (\<lambda>c. c \<noteq> CHR '':'') url1) else url1);
          delim = (\<lambda>c. c = CHR ''/'' \<or> c = CHR ''?'' \<or> c = CHR ''#'');
          netloc = (if take 2 url2 = ''//'' then takeWhile (\<lambda>c. \<not> delim c) (drop 2 url2)
                    else []);
          url3 = (if take 2 url2 = ''//'' then dropWhile (\<lambda>c. \<not> delim c) (drop 2 url2)
                  else url2);
          bracketed_host = takeWhile (\<lambda>c. c \<noteq> CHR '']'')
                             (drop 1 (dropWhile (\<lambda>c. c \<noteq> CHR ''['') netloc));
          url4 = takeWhile (\<lambda>c. c \<noteq> CHR ''?'') (takeWhile (\<lambda>c. c \<noteq> CHR ''#'') url3)
      in if (CHR ''['' \<in> set netloc) \<noteq> (CHR '']'' \<in> set netloc) then Inl ValueError
         else if CHR ''['' \<in> set netloc \<and> \<not> valid_bracketed_host bracketed_host
         then Inl ValueError
         else Inr (if scheme \<in> set uses_params then split_params url4 else url4))"

text \<open>\<^verbatim>\<open>s.endswith(suffix)\<close>, and the test of the file extensions on the lowered path.\<close>

definition endswith :: "string \<Rightarrow> string \<Rightarrow> bool" where
  "endswith s suffix =
     (length suffix \<le> length s \<and> drop (length s - length suffix) s = suffix)"

definition is_file_path :: "string \<Rightarrow> bool" where
  "is_file_path path =
     list_ex (endswith (py_lower path)) [''.pdf'', ''.jpg'', ''.jpeg'', ''.png'', ''.gif'']"

text \<open>\<^verbatim>\<open>s.strip('/')\<close> and \<^verbatim>\<open>s.rstrip('/')\<close>.\<close>

definition rstrip_slash :: "string \<Rightarrow> string" where
  "rstrip_slash s = rev (dropWhile (\<lambda>c. c = CHR ''/'') (rev s))"

definition strip_slash :: "string \<Rightarrow> string" where
  "strip_slash s = rstrip_slash (dropWhile (\<lambda>c. c = CHR ''/'') s)"

text \<open>\<^verbatim>\<open>path.strip('/').split('/')[-1]\<close>; \<^verbatim>\<open>split\<close> never returns an empty list.\<close>

definition slug_of_path :: "string \<Rightarrow> string" where
  "slug_of_path path = last (py_split CHR ''/'' (strip_slash path))"

text \<open>The loop \<^verbatim>\<open>for link in links\<close>, with \<^verbatim>\<open>internal_links\<close> as accumulator.\<close>

fun slugs_of_links :: "string list \<Rightarrow> string list \<Rightarrow> exc + string list" where
  "slugs_of_links internal_links [] = Inr internal_links"
| "slugs_of_links internal_links (l # ls) =
     (case urlparse_path l of
        Inl e \<Rightarrow> Inl e
      | Inr path \<Rightarrow>
          if is_file_path path then slugs_of_links internal_links ls
          else slugs_of_links (internal_links @ [slug_of_path path]) ls)"

text \<open>\<^verbatim>\<open>extract_internal_links\<close>: any exception is logged and gives \<^verbatim>\<open>[]\<close>.\<close>

definition extract_internal_links :: "string \<Rightarrow> string \<Rightarrow> string list" where
  "extract_internal_links post_content base_url =
     (case slugs_of_links [] (re_findall (rstrip_slash base_url) post_content) of
        Inl e \<Rightarrow> []
      | Inr internal_links \<Rightarrow> internal_links)"

section \<open>core/link_extractor.py: extract_acf_links\<close>

text \<open>\<^verbatim>\<open>[int(x) for x in xs]\<close> on strings: the first \<^verbatim>\<open>ValueError\<close> ends the comprehension.\<close>

fun int_each :: "string list \<Rightarrow> exc + int list" where
  "int_each [] = Inr []"
| "int_each (x # xs) =
     (case py_int x of
        Inl e \<Rightarrow> Inl e
      | Inr n \<Rightarrow> (case int_each xs of Inl e \<Rightarrow> Inl e | Inr ns \<Rightarrow> Inr (n # ns)))"

text \<open>
  The comprehension of the list branch,
  \<^verbatim>\<open>[int(x) for x in related_posts if isinstance(x, (int, str)) and str(x).isdigit()]\<close>.
  A \<^verbatim>\<open>bool\<close> is an \<^verbatim>\<open>int\<close> whose \<^verbatim>\<open>str\<close> is \<^verbatim>\<open>True\<close> or \<^verbatim>\<open>False\<close>; the \<^verbatim>\<open>str\<close> of a
  negative integer starts with its sign.
\<close>

fun int_elements :: "json list \<Rightarrow> exc + int list" where
  "int_elements [] = Inr []"
| "int_elements (JNum n # xs) =
     (if py_isdigit (str_int n)
      then (case int_elements xs of Inl e \<Rightarrow> Inl e | Inr ns \<Rightarrow> Inr (n # ns))
      else int_elements xs)"
| "int_elements (JStr s # xs) =
     (if py_isdigit s
      then (case py_int s of
              Inl e \<Rightarrow> Inl e
            | Inr n \<Rightarrow> (case int_elements xs of Inl e \<Rightarrow> Inl e | Inr ns \<Rightarrow> Inr (n # ns)))
      else int_elements xs)"
| "int_elements (x # xs) = int_elements xs"

text \<open>
  \<^verbatim>\<open>acf_data.get(acf_field_name)\<close>: a dictionary gives the field or \<^verbatim>\<open>None\<close>; no other
  value that \<^verbatim>\<open>post_data.get("acf", {})\<close> can be has a method \<^verbatim>\<open>get\<close>.
\<close>

fun dict_get :: "json \<Rightarrow> string \<Rightarrow> exc + json" where
  "dict_get (JObj kvs) key = (case map_of kvs key of None \<Rightarrow> Inr JNull | Some v \<Rightarrow> Inr v)"
| "dict_get x key = Inl AttributeError"

text \<open>The \<^verbatim>\<open>try\<close> block of \<^verbatim>\<open>extract_acf_links\<close>.\<close>

definition extract_acf_links_try :: "json \<Rightarrow> string \<Rightarrow> exc + int list" where
  "extract_acf_links_try acf_data acf_field_name =
     (case dict_get acf_data acf_field_name of
        Inl e \<Rightarrow> Inl e
      | Inr (JStr s) \<Rightarrow>
          int_each
            (filter py_isdigit
               (map py_strip (filter (\<lambda>x. py_isdigit (py_strip x)) (py_split CHR '','' s))))
      | Inr (JArr xs) \<Rightarrow> int_elements xs
      | Inr other \<Rightarrow> Inr [])"

text \<open>
  \<^verbatim>\<open>extract_acf_links\<close>: the three exception classes that the block can raise are caught
  and give \<^verbatim>\<open>[]\<close>.
\<close>

definition extract_acf_links :: "json \<Rightarrow> string \<Rightarrow> int list" where
  "extract_acf_links acf_data acf_field_name =
     (case extract_acf_links_try acf_data acf_field_name of
        Inl e \<Rightarrow> []
      | Inr ids \<Rightarrow> ids)"

section \<open>core/link_extractor.py: resolve_slug_to_id\<close>

text \<open>\<^verbatim>\<open>f"{base_url}/wp-json/wp/v2/{kind}?slug={slug}"\<close>.\<close>

definition slug_url :: "string \<Rightarrow> string \<Rightarrow> string \<Rightarrow> string" where
  "slug_url base_url kind slug = base_url @ ''/wp-json/wp/v2/'' @ kind @ ''?slug='' @ slug"

text \<open>\<^verbatim>\<open>xs[0]["id"]\<close>.\<close>

definition first_id :: "json \<Rightarrow> exc + json" where
  "first_id xs = (case subscript0 xs of Inl e \<Rightarrow> Inl e | Inr x \<Rightarrow> subscript x ''id'')"

text \<open>
  The body of the \<^verbatim>\<open>try\<close> block of one attempt, started at request number \<open>t\<close>: the
  value returned or the exception raised, and the request counter afterwards.
\<close>

definition resolve_try ::
  "net \<Rightarrow> string \<Rightarrow> string \<Rightarrow> bool \<Rightarrow> nat \<Rightarrow> (exc + json) \<times> nat" where
  "resolve_try net base_url slug ignore_non_posts t =
     (case get_json net t (slug_url base_url ''posts'' slug) of
        Inl e \<Rightarrow> (Inl e, t + 1)
      | Inr posts \<Rightarrow>
          if truthy posts then (first_id posts, t + 1)
          else if \<not> ignore_non_posts then
            (case get_json net (t + 1) (slug_url base_url ''pages'' slug) of
               Inl e \<Rightarrow> (Inl e, t + 2)
             | Inr pages \<Rightarrow>
                 if truthy pages then (first_id pages, t + 2)
                 else
                   (case get_json net (t + 2) (slug_url base_url ''categories'' slug) of
                      Inl e \<Rightarrow> (Inl e, t + 3)
                    | Inr categories \<Rightarrow>
                        if truthy categories then (first_id categories, t + 3)
                        else (Inr JNull, t + 3)))
          else (Inr JNull, t + 1))"

text \<open>
  \<^verbatim>\<open>for attempt in range(max_attempts)\<close>, with \<open>remaining\<close> attempts left, so that
  \<^verbatim>\<open>attempt = max_attempts - remaining\<close>. A \<^verbatim>\<open>RequestException\<close> goes to the next attempt,
  or returns \<^verbatim>\<open>None\<close> on the last one. Any other exception enters the second handler,
  whose log message reads the name \<^verbatim>\<open>url\<close>, which no scope of the module binds: the
  handler raises \<^verbatim>\<open>NameError\<close> before its \<^verbatim>\<open>return None\<close>. A loop that runs out
  (\<^verbatim>\<open>max_attempts = 0\<close>) falls off the end of the function, which returns \<^verbatim>\<open>None\<close>.
\<close>

fun resolve_attempts ::
  "net \<Rightarrow> string \<Rightarrow> string \<Rightarrow> bool \<Rightarrow> nat \<Rightarrow> nat \<Rightarrow> nat \<Rightarrow> (exc + json) \<times> nat" where
  "resolve_attempts net base_url slug ignore_non_posts max_attempts 0 t = (Inr JNull, t)"
| "resolve_attempts net base_url slug ignore_non_posts max_attempts (Suc remaining) t =
     (let attempt = max_attempts - Suc remaining
      in case resolve_try net base_url slug ignore_non_posts t of
           (Inr v, t') \<Rightarrow> (Inr v, t')
         | (Inl RequestException, t') \<Rightarrow>
             if int attempt < int max_attempts - 1
             then resolve_attempts net base_url slug ignore_non_posts max_attempts remaining t'
             else (Inr JNull, t')
         | (Inl e, t') \<Rightarrow> (Inl NameError, t'))"

definition resolve_slug_to_id ::
  "net \<Rightarrow> string \<Rightarrow> string \<Rightarrow> bool \<Rightarrow> nat \<Rightarrow> nat \<Rightarrow> (exc + json) \<times> nat" where
  "resolve_slug_to_id net base_url slug ignore_non_posts max_attempts t =
     resolve_attempts net base_url slug ignore_non_posts max_attempts max_attempts t"

section \<open>core/data_processor.py\<close>

text \<open>
  \<^verbatim>\<open>incoming_links = {}\<close> followed by
  \<^verbatim>\<open>for post in all_posts: incoming_links[post['id']] = []\<close>.
\<close>

fun init_incoming ::
  "'i key_ops \<Rightarrow> ('i \<times> 'i list) list \<Rightarrow> ('i, 's) post list \<Rightarrow> exc + ('i \<times> 'i list) list" where
  "init_incoming K d [] = Inr d"
| "init_incoming K d (p # ps) =
     (if hashable K (post_id p) then init_incoming K (dict_put K (post_id p) [] d) ps
      else Inl TypeError)"

text \<open>
  The inner loop \<^verbatim>\<open>for linked_post_id in outgoing_links\<close>: a target that is a key
  of \<^verbatim>\<open>incoming_links\<close> gets the source appended, any other target is only logged.
\<close>

fun add_incoming ::
  "'i key_ops \<Rightarrow> ('i \<times> 'i list) list \<Rightarrow> 'i \<Rightarrow> 'i list \<Rightarrow> exc + ('i \<times> 'i list) list" where
  "add_incoming K d src [] = Inr d"
| "add_incoming K d src (t # ts) =
     (if hashable K t then
        add_incoming K
          (case dict_find K d t of
             Some xs \<Rightarrow> dict_put K t (xs @ [src]) d
           | None \<Rightarrow> d)
          src ts
      else Inl TypeError)"

text \<open>The outer loop \<^verbatim>\<open>for post_id, outgoing_links in links_per_post.items()\<close>.\<close>

fun add_all_incoming ::
  "'i key_ops \<Rightarrow> ('i \<times> 'i list) list \<Rightarrow> ('i \<times> 'i list) list \<Rightarrow>
   exc + ('i \<times> 'i list) list" where
  "add_all_incoming K d [] = Inr d"
| "add_all_incoming K d ((src, outgoing) # rest) =
     (case add_incoming K d src outgoing of
        Inl e \<Rightarrow> Inl e
      | Inr d' \<Rightarrow> add_all_incoming K d' rest)"

definition calculate_incoming_links ::
  "'i key_ops \<Rightarrow> ('i, 's) post list \<Rightarrow> ('i \<times> 'i list) list \<Rightarrow> exc + ('i \<times> 'i list) list" where
  "calculate_incoming_links K all_posts links_per_post =
     (case init_incoming K [] all_posts of
        Inl e \<Rightarrow> Inl e
      | Inr d \<Rightarrow> add_all_incoming K d links_per_post)"

text \<open>A row of the report.\<close>

record ('i, 's) report_row =
  row_post_id :: 'i
  row_post_slug :: 's
  outgoing_count :: nat
  outgoing_links :: string
  incoming_count :: nat
  incoming_links :: string

text \<open>The loop of \<^verbatim>\<open>build_dataframe\<close> that fills \<^verbatim>\<open>data\<close>, one row for each article.\<close>

fun report_rows ::
  "'i key_ops \<Rightarrow> ('i, 's) post list \<Rightarrow> ('i \<times> 'i list) list \<Rightarrow> ('i \<times> 'i list) list \<Rightarrow>
   exc + ('i, 's) report_row list" where
  "report_rows K [] links_per_post incoming = Inr []"
| "report_rows K (p # ps) links_per_post incoming =
     (if hashable K (post_id p) then
        (let outgoing = (case dict_find K links_per_post (post_id p) of
                           None \<Rightarrow> [] | Some xs \<Rightarrow> xs);
             incoming_for_post = (case dict_find K incoming (post_id p) of
                                    None \<Rightarrow> [] | Some xs \<Rightarrow> xs)
         in case report_rows K ps links_per_post incoming of
              Inl e \<Rightarrow> Inl e
            | Inr rows \<Rightarrow>
                Inr (\<lparr>row_post_id = post_id p, row_post_slug = post_slug p,
                      outgoing_count = length outgoing,
                      outgoing_links = py_join '', '' (map (key_str K) outgoing),
                      incoming_count = length incoming_for_post,
                      incoming_links = py_join '', '' (map (key_str K) incoming_for_post)\<rparr>
                     # rows))
      else Inl TypeError)"

text \<open>
  \<^verbatim>\<open>build_dataframe\<close>. The call \<^verbatim>\<open>df.sort_values(by='incoming_count', ascending=False)\<close>
  runs code of the pandas library, with its default \<^verbatim>\<open>kind='quicksort'\<close>: it is the
  parameter \<open>sort_values\<close>. A frame built from no row has no column
  \<^verbatim>\<open>incoming_count\<close>, and sorting it raises \<^verbatim>\<open>KeyError\<close>.
\<close>

definition build_dataframe ::
  "'i key_ops \<Rightarrow> (('i, 's) report_row list \<Rightarrow> ('i, 's) report_row list) \<Rightarrow>
   ('i, 's) post list \<Rightarrow> ('i \<times> 'i list) list \<Rightarrow> ('i \<times> 'i list) list \<Rightarrow>
   exc + ('i, 's) report_row list" where
  "build_dataframe K sort_values all_posts links_per_post incoming =
     (case report_rows K all_posts links_per_post incoming of
        Inl e \<Rightarrow> Inl e
      | Inr data \<Rightarrow> if data = [] then Inl KeyError else Inr (sort_values data))"

section \<open>main.py: turning the references of one article into identifiers\<close>

text \<open>
  An element of \<^verbatim>\<open>all_links\<close>: a slug from the content (\<^verbatim>\<open>str\<close>) or an identifier from
  the structured field (\<^verbatim>\<open>int\<close>).
\<close>

datatype link = Slug string | Ident int

text \<open>The two warnings of the conversion loop, with the reference and the article.\<close>

datatype warning =
    NotAnArticle json link json
  | NotFound link json

text \<open>
  \<^verbatim>\<open>linked_post_id\<close>: an \<^verbatim>\<open>int\<close> is used as it is, a slug is resolved (with the
  default \<^verbatim>\<open>max_attempts = 3\<close>).
\<close>

definition linked_post_id ::
  "net \<Rightarrow> string \<Rightarrow> bool \<Rightarrow> nat \<Rightarrow> link \<Rightarrow> (exc + json) \<times> nat" where
  "linked_post_id net base_url ignore_non_posts t l =
     (case l of
        Ident i \<Rightarrow> (Inr (JNum i), t)
      | Slug s \<Rightarrow> resolve_slug_to_id net base_url s ignore_non_posts 3 t)"

text \<open>
  One round of \<^verbatim>\<open>for link in all_links\<close>. The state is the list
  \<^verbatim>\<open>links_per_post[post_id]\<close>, the warnings logged so far and the request counter.
\<close>

definition convert_link ::
  "net \<Rightarrow> string \<Rightarrow> bool \<Rightarrow> (json, json) post list \<Rightarrow> json \<Rightarrow>
   json list \<times> warning list \<times> nat \<Rightarrow> link \<Rightarrow> exc + json list \<times> warning list \<times> nat" where
  "convert_link net base_url ignore_non_posts all_posts pid st l =
     (case st of (links, log, t) \<Rightarrow>
        (case linked_post_id net base_url ignore_non_posts t l of
           (Inl e, t') \<Rightarrow> Inl e
         | (Inr linked, t') \<Rightarrow>
             if truthy linked then
               if py_in linked (map post_id all_posts) \<or> \<not> ignore_non_posts
               then Inr (links @ [linked], log, t')
               else Inr (links, log @ [NotAnArticle linked l pid], t')
             else Inr (links, log @ [NotFound l pid], t')))"

fun convert_links ::
  "net \<Rightarrow> string \<Rightarrow> bool \<Rightarrow> (json, json) post list \<Rightarrow> json \<Rightarrow>
   json list \<times> warning list \<times> nat \<Rightarrow> link list \<Rightarrow> exc + json list \<times> warning list \<times> nat" where
  "convert_links net base_url ignore_non_posts all_posts pid st [] = Inr st"
| "convert_links net base_url ignore_non_posts all_posts pid st (l # ls) =
     (case convert_link net base_url ignore_non_posts all_posts pid st l of
        Inl e \<Rightarrow> Inl e
      | Inr st' \<Rightarrow> convert_links net base_url ignore_non_posts all_posts pid st' ls)"

section \<open>main.py: the run over the sites\<close>

text \<open>
  The module \<^verbatim>\<open>config\<close> is not part of the sources: its four names are the fields of a
  record. A site has a \<^verbatim>\<open>url\<close>, a \<^verbatim>\<open>name\<close> and may set \<^verbatim>\<open>acf_field_name\<close> and
  \<^verbatim>\<open>ignore_non_posts\<close>. \<^verbatim>\<open>CSV_FILENAME\<close> is taken with its method \<^verbatim>\<open>format\<close>: the file
  name for a site name, or the exception that a template with other fields raises.
\<close>

record site =
  site_url :: string
  site_name :: string
  site_acf_field_name :: "string option"
  site_ignore_non_posts :: "bool option"

record config =
  SITES :: "site list"
  CSV_FILENAME :: "string \<Rightarrow> exc + string"
  ACF_FIELD_NAME :: string
  IGNORE_NON_POSTS :: bool

type_synonym report = "(json, json) report_row list"

text \<open>
  One round of \<^verbatim>\<open>for post in all_posts\<close>. A content that is not a string makes
  \<^verbatim>\<open>re.findall\<close> raise \<^verbatim>\<open>TypeError\<close> inside \<^verbatim>\<open>extract_internal_links\<close>, which returns
  \<^verbatim>\<open>[]\<close>. The list \<^verbatim>\<open>links_per_post[post_id]\<close> starts empty and receives the identifiers
  that the conversion loop appends.
\<close>

definition post_links ::
  "net \<Rightarrow> string \<Rightarrow> string \<Rightarrow> bool \<Rightarrow> (json, json) post list \<Rightarrow>
   (json \<times> json list) list \<times> nat \<Rightarrow> (json, json) post \<Rightarrow>
   exc + (json \<times> json list) list \<times> nat" where
  "post_links net base_url acf_field_name ignore_non_posts all_posts st post =
     (case st of (links_per_post, t) \<Rightarrow>
        (case get_post_content net base_url (post_id post) t of
           ((post_content, acf_data), t1) \<Rightarrow>
             (let internal_links =
                    (if truthy post_content
                     then (case post_content of
                             JStr s \<Rightarrow> extract_internal_links s base_url
                           | _ \<Rightarrow> [])
                     else []);
                  acf_links =
                    (if truthy acf_data then extract_acf_links acf_data acf_field_name
                     else []);
                  all_links = map Slug internal_links @ map Ident acf_links
              in if \<not> json_hashable (post_id post) then Inl TypeError
                 else
                   (case convert_links net base_url ignore_non_posts all_posts (post_id post)
                           ([], [], t1) all_links of
                      Inl e \<Rightarrow> Inl e
                    | Inr (links, log, t2) \<Rightarrow>
                        Inr (dict_put json_keys (post_id post) links
                               (dict_put json_keys (post_id post) [] links_per_post), t2)))))"

fun all_post_links ::
  "net \<Rightarrow> string \<Rightarrow> string \<Rightarrow> bool \<Rightarrow> (json, json) post list \<Rightarrow>
   (json \<times> json list) list \<times> nat \<Rightarrow> (json, json) post list \<Rightarrow>
   exc + (json \<times> json list) list \<times> nat" where
  "all_post_links net base_url acf_field_name ignore_non_posts all_posts st [] = Inr st"
| "all_post_links net base_url acf_field_name ignore_non_posts all_posts st (post # posts) =
     (case post_links net base_url acf_field_name ignore_non_posts all_posts st post of
        Inl e \<Rightarrow> Inl e
      | Inr st' \<Rightarrow>
          all_post_links net base_url acf_field_name ignore_non_posts all_posts st' posts)"

text \<open>
  The body of \<^verbatim>\<open>for site in SITES\<close>, started at request number \<open>t\<close>: the exception that
  leaves it, or the file written (none when the site gave no article and the loop went
  on with \<^verbatim>\<open>continue\<close>) and the request counter.
\<close>

definition process_site ::
  "config \<Rightarrow> (report \<Rightarrow> report) \<Rightarrow> net \<Rightarrow> site \<Rightarrow> nat \<Rightarrow>
   exc + (string \<times> report) option \<times> nat" where
  "process_site cfg sort_values net site t =
     (case CSV_FILENAME cfg (site_name site) of
        Inl e \<Rightarrow> Inl e
      | Inr csv_filename \<Rightarrow>
          (let base_url = site_url site;
               acf_field_name = (case site_acf_field_name site of
                                   None \<Rightarrow> ACF_FIELD_NAME cfg | Some f \<Rightarrow> f);
               ignore_non_posts = (case site_ignore_non_posts site of
                                     None \<Rightarrow> IGNORE_NON_POSTS cfg | Some b \<Rightarrow> b)
           in case get_all_posts net base_url 100 t of
                (all_posts, t1) \<Rightarrow>
                  if all_posts = [] then Inr (None, t1)
                  else
                    (case all_post_links net base_url acf_field_name ignore_non_posts
                            all_posts ([], t1) all_posts of
                       Inl e \<Rightarrow> Inl e
                     | Inr (links_per_post, t2) \<Rightarrow>
                         (case calculate_incoming_links json_keys all_posts links_per_post of
                            Inl e \<Rightarrow> Inl e
                          | Inr incoming \<Rightarrow>
                              (case build_dataframe json_keys sort_values all_posts
                                      links_per_post incoming of
                                 Inl e \<Rightarrow> Inl e
                               | Inr df \<Rightarrow> Inr (Some (csv_filename, df), t2))))))"

text \<open>
  The loop over the sites inside the \<^verbatim>\<open>try\<close> block of \<^verbatim>\<open>main\<close>: the files written, the
  request counter, and the exception that ended the loop, if any.
\<close>

fun run_sites ::
  "config \<Rightarrow> (report \<Rightarrow> report) \<Rightarrow> net \<Rightarrow> (string \<times> report) list \<Rightarrow> nat \<Rightarrow> site list \<Rightarrow>
   (string \<times> report) list \<times> nat \<times> exc option" where
  "run_sites cfg sort_values net written t [] = (written, t, None)"
| "run_sites cfg sort_values net written t (site # sites) =
     (case process_site cfg sort_values net site t of
        Inl e \<Rightarrow> (written, t, Some e)
      | Inr (None, t') \<Rightarrow> run_sites cfg sort_values net written t' sites
      | Inr (Some csv, t') \<Rightarrow> run_sites cfg sort_values net (written @ [csv]) t' sites)"

text \<open>
  \<^verbatim>\<open>main\<close> returns nothing; what it leaves behind is the files it wrote, and the
  exception that its handler logged when one was raised.
\<close>

definition main :: "config \<Rightarrow> (report \<Rightarrow> report) \<Rightarrow> net \<Rightarrow> (string \<times> report) list \<times> exc option" where
  "main cfg sort_values net =
     (case run_sites cfg sort_values net [] 0 (SITES cfg) of
        (written, t, raised) \<Rightarrow> (written, raised))"

section \<open>Notions used in the statements\<close>








text \<open>The number of entries over all the sequences of a link map.\<close>

definition total_links :: "('i \<times> 'i list) list \<Rightarrow> nat" where
  "total_links d = sum_list (map (\<lambda>kv. length (snd kv)) d)"

text \<open>Every target of the link map is the identifier of a listed article.\<close>

definition targets_known :: "('i, 's) post list \<Rightarrow> ('i \<times> 'i list) list \<Rightarrow> bool" where
  "targets_known all_posts links_per_post =
     list_all (\<lambda>kv. list_all (\<lambda>t. t \<in> set (map post_id all_posts)) (snd kv)) links_per_post"

section \<open>Sites used in the examples\<close>

text \<open>
  A site whose slug \<^verbatim>\<open>about\<close> names no post and names the page 7.
\<close>

definition page_only_site :: net where
  "page_only_site t url =
     (if url = ''https://example.com/wp-json/wp/v2/posts?slug=about''
      then Reply None (Some (JArr []))
      else if url = ''https://example.com/wp-json/wp/v2/pages?slug=about''
      then Reply None (Some (JArr [JObj [(''id'', JNum 7), (''slug'', JStr ''about'')]]))
      else Reply None (Some (JArr [])))"

text \<open>A site that answers every lookup with one object that has no \<^verbatim>\<open>id\<close>.\<close>

definition no_id_site :: net where
  "no_id_site t url = Reply None (Some (JArr [JObj [(''slug'', JStr ''about'')]]))"

text \<open>A site whose post \<^verbatim>\<open>zero\<close> has the identifier 0.\<close>

definition zero_id_site :: net where
  "zero_id_site t url =
     Reply None (Some (JArr [JObj [(''id'', JNum 0), (''slug'', JStr ''zero'')]]))"

text \<open>The object \<^verbatim>\<open>{"id": i, "slug": s}\<close>.\<close>

definition entry :: "int \<Rightarrow> string \<Rightarrow> json" where
  "entry i s = JObj [(''id'', JNum i), (''slug'', JStr s)]"



text \<open>
  Two sites. On the first, the only article links to \<^verbatim>\<open>/about\<close>, and the lookup of that
  slug is answered with an object that has no \<^verbatim>\<open>id\<close>. The second has one article without
  links.
\<close>

definition site_one :: site where
  "site_one = \<lparr>site_url = ''https://one.example'', site_name = ''one'',
                site_acf_field_name = None, site_ignore_non_posts = None\<rparr>"

definition site_two :: site where
  "site_two = \<lparr>site_url = ''https://two.example'', site_name = ''two'',
                site_acf_field_name = None, site_ignore_non_posts = None\<rparr>"

definition two_sites_config :: config where
  "two_sites_config =
     \<lparr>SITES = [site_one, site_two],
      CSV_FILENAME = (\<lambda>name. Inr (name @ ''_links.csv'')),
      ACF_FIELD_NAME = ''related-posts'',
      IGNORE_NON_POSTS = True\<rparr>"

definition two_sites_net :: net where
  \<open>two_sites_net t url =
     (if url = page_url ''https://one.example'' 100 1
      then Reply (Some ''1'') (Some (JArr [entry 1 ''a'']))
      else if url = ''https://one.example/wp-json/wp/v2/posts/1''
      then Reply None (Some (JObj [(''id'', JNum 1),
             (''content'', JObj [(''rendered'',
                JStr ''<p><a href="https://one.example/about">About</a></p>'')])]))
      else if url = ''https://one.example/wp-json/wp/v2/posts?slug=about''
      then Reply None (Some (JArr [JObj [(''slug'', JStr ''about'')]]))
      else if url = page_url ''https://two.example'' 100 1
      then Reply (Some ''1'') (Some (JArr [entry 5 ''home'']))
      else if url = ''https://two.example/wp-json/wp/v2/posts/5''
      then Reply None (Some (JObj [(''id'', JNum 5),
             (''content'', JObj [(''rendered'', JStr ''<p>Welcome</p>'')])]))
      else Failed)\<close>

section \<open>Link aggregation\<close>

lemma dict_find_int_keys: "dict_find int_keys d k = map_of d k"
  by (induction d) (auto simp: int_keys_def)

lemma dict_put_int_keys: "dict_put int_keys k v d = AList.update k v d"
  by (induction d) (auto simp: int_keys_def)

lemma hashable_int_keys: "hashable int_keys k"
  by (simp add: int_keys_def)

lemma total_links_update_append:
  "map_of d t = Some xs \<Longrightarrow> total_links (AList.update t (xs @ [s]) d) = Suc (total_links d)"
  by (induction d) (auto simp: total_links_def)

lemma keys_update_present:
  "map_of d t = Some xs \<Longrightarrow> fst ` set (AList.update t v d) = fst ` set d"
  by (induction d) (auto split: if_splits)

lemma add_incoming_total:
  "set ts \<subseteq> fst ` set d \<Longrightarrow>
   \<exists>d'. add_incoming int_keys d s ts = Inr d'
     \<and> total_links d' = total_links d + length ts
     \<and> fst ` set d' = fst ` set d"
proof (induction ts arbitrary: d)
  case Nil
  then show ?case by simp
next
  case (Cons t ts)
  from Cons.prems have "t \<in> fst ` set d" by simp
  then obtain xs where xs: "map_of d t = Some xs"
    by (metis domD dom_map_of_conv_image_fst)
  let ?d = "AList.update t (xs @ [s]) d"
  have keys: "fst ` set ?d = fst ` set d" using xs by (rule keys_update_present)
  with Cons.prems have "set ts \<subseteq> fst ` set ?d" by simp
  from Cons.IH [OF this] show ?case
    using xs keys
    by (simp add: total_links_update_append dict_find_int_keys dict_put_int_keys
        hashable_int_keys)
qed

lemma add_all_incoming_total:
  "list_all (\<lambda>kv. set (snd kv) \<subseteq> fst ` set d) l \<Longrightarrow>
   \<exists>d'. add_all_incoming int_keys d l = Inr d'
     \<and> total_links d' = total_links d + total_links l"
proof (induction l arbitrary: d)
  case Nil
  then show ?case by (simp add: total_links_def)
next
  case (Cons kv l)
  obtain s ts where kv: "kv = (s, ts)" by (cases kv)
  from Cons.prems kv have sub: "set ts \<subseteq> fst ` set d" by simp
  from add_incoming_total [OF sub, of s] obtain d1 where
    d1: "add_incoming int_keys d s ts = Inr d1"
      "total_links d1 = total_links d + length ts" "fst ` set d1 = fst ` set d"
    by blast
  from Cons.prems d1(3) have "list_all (\<lambda>kv. set (snd kv) \<subseteq> fst ` set d1) l"
    by simp
  from Cons.IH [OF this] d1 kv show ?case
    by (auto simp: total_links_def)
qed

lemma keys_update:
  "fst ` set (AList.update k v d) = insert k (fst ` set d)"
proof -
  have "set (map fst (AList.update k v d)) = insert k (set (map fst d))"
    by (simp add: update_keys) auto
  then show ?thesis by simp
qed

lemma total_links_update_empty:
  "total_links d = 0 \<Longrightarrow> total_links (AList.update k [] d) = 0"
  by (induction d) (auto simp: total_links_def)

lemma init_incoming_int_keys:
  "total_links d = 0 \<Longrightarrow>
   \<exists>d'. init_incoming int_keys d ps = Inr d'
     \<and> fst ` set d' = fst ` set d \<union> post_id ` set ps
     \<and> total_links d' = 0"
proof (induction ps arbitrary: d)
  case Nil
  then show ?case by simp
next
  case (Cons p ps)
  from Cons.prems have "total_links (AList.update (post_id p) [] d) = 0"
    by (rule total_links_update_empty)
  from Cons.IH [OF this] show ?case
    by (auto simp: dict_put_int_keys hashable_int_keys keys_update)
qed

text \<open>
  C6. When every target of the outgoing-link map is the identifier of a listed article,
  \<^verbatim>\<open>calculate_incoming_links\<close> returns an incoming-link map that has as many entries, over
  all its sequences, as the outgoing-link map has over all of its own: link count is
  conserved.
\<close>

theorem calculate_incoming_links_conservation:
  assumes "targets_known all_posts links_per_post"
  shows "\<exists>incoming. calculate_incoming_links int_keys all_posts links_per_post = Inr incoming
           \<and> total_links incoming = total_links links_per_post"
proof -
  have "total_links ([] :: (int \<times> int list) list) = 0" by (simp add: total_links_def)
  from init_incoming_int_keys [OF this, of all_posts] obtain d where
    d: "init_incoming int_keys [] all_posts = Inr d"
      "fst ` set d = post_id ` set all_posts" "total_links d = 0"
    by auto
  from assms d(2) have "list_all (\<lambda>kv. set (snd kv) \<subseteq> fst ` set d) links_per_post"
    by (auto simp: targets_known_def list_all_iff)
  from add_all_incoming_total [OF this] d show ?thesis
    by (auto simp: calculate_incoming_links_def)
qed

theorem calculate_incoming_links_conservation_witness:
  "targets_known
     [\<lparr>post_id = 1::int, post_slug = ''a''\<rparr>, \<lparr>post_id = 2, post_slug = ''b''\<rparr>,
      \<lparr>post_id = 3, post_slug = ''c''\<rparr>]
     [(1, [2, 3]), (2, [3, 3]), (3, [])]
   \<and> calculate_incoming_links int_keys
          [\<lparr>post_id = 1::int, post_slug = ''a''\<rparr>, \<lparr>post_id = 2, post_slug = ''b''\<rparr>,
           \<lparr>post_id = 3, post_slug = ''c''\<rparr>]
          [(1, [2, 3]), (2, [3, 3]), (3, [])] = Inr [(1, []), (2, [1]), (3, [1, 2, 2])]
   \<and> total_links [(1::int, []), (2, [1]), (3, [1, 2, 2])]
       = total_links [(1::int, [2, 3]), (2, [3, 3]), (3, [])]"
proof -
  have known: "targets_known
     [\<lparr>post_id = 1::int, post_slug = ''a''\<rparr>, \<lparr>post_id = 2, post_slug = ''b''\<rparr>,
      \<lparr>post_id = 3, post_slug = ''c''\<rparr>]
     [(1, [2, 3]), (2, [3, 3]), (3, [])]"
    by (simp add: targets_known_def)
  have run: "calculate_incoming_links int_keys
          [\<lparr>post_id = 1::int, post_slug = ''a''\<rparr>, \<lparr>post_id = 2, post_slug = ''b''\<rparr>,
           \<lparr>post_id = 3, post_slug = ''c''\<rparr>]
          [(1, [2, 3]), (2, [3, 3]), (3, [])] = Inr [(1, []), (2, [1]), (3, [1, 2, 2])]"
    by (simp add: calculate_incoming_links_def int_keys_def)
  from calculate_incoming_links_conservation [OF known] known run show ?thesis
    by simp
qed

section \<open>Slug resolution\<close>

lemma resolve_try_no_post:
  assumes "get_json net t (slug_url base_url ''posts'' slug) = Inr posts" and "\<not> truthy posts"
  shows "resolve_try net base_url slug True t = (Inr JNull, t + 1)"
  using assms by (simp add: resolve_try_def)

text \<open>
  When every request fails, each attempt makes one request and the last one returns
  \<^verbatim>\<open>None\<close>.
\<close>

lemma resolve_attempts_all_failed:
  assumes "\<forall>u k. net (t + k) u = Failed" and "remaining \<le> max_attempts"
  shows "resolve_attempts net base_url slug ignore_non_posts max_attempts remaining t
           = (Inr JNull, t + remaining)"
  using assms
proof (induction remaining arbitrary: t)
  case 0
  then show ?case by simp
next
  case (Suc r)
  from Suc.prems(1) [rule_format, of 0] have now: "\<And>u. net t u = Failed" by simp
  have tr: "resolve_try net base_url slug ignore_non_posts t = (Inl RequestException, t + 1)"
    by (simp add: resolve_try_def get_json_def now)
  have later: "\<forall>u k. net (t + 1 + k) u = Failed"
    using Suc.prems(1) by (metis add.assoc)
  have "resolve_attempts net base_url slug ignore_non_posts max_attempts r (t + 1)
          = (Inr JNull, t + 1 + r)"
    using Suc.IH [OF later] Suc.prems(2) by simp
  with tr Suc.prems(2) show ?case
    by (cases r) (auto simp: Let_def)
qed

lemma resolve_slug_to_id_all_failed:
  assumes "\<forall>u k. net (t + k) u = Failed"
  shows "resolve_slug_to_id net base_url slug ignore_non_posts max_attempts t
           = (Inr JNull, t + max_attempts)"
  using resolve_attempts_all_failed [OF assms order_refl]
  by (simp add: resolve_slug_to_id_def)

text \<open>
  C5, at the input where it fails. The lookup of a slug is answered with a list whose first
  object has no \<^verbatim>\<open>id\<close> field: \<^verbatim>\<open>posts[0]["id"]\<close> raises \<^verbatim>\<open>KeyError\<close>, the handler
  for \<^verbatim>\<open>Exception\<close> formats its message with the unbound name \<^verbatim>\<open>url\<close>, and
  \<^verbatim>\<open>NameError\<close> reaches the caller after one request.
\<close>

theorem resolve_slug_to_id_raises_on_missing_id:
  "resolve_slug_to_id no_id_site ''https://example.com'' ''about'' True 3 0
     = (Inl NameError, 1)"
  by (simp add: resolve_slug_to_id_def resolve_try_def get_json_def no_id_site_def
      first_id_def numeral_3_eq_3)

text \<open>
  C1, as stated, fails: with \<^verbatim>\<open>ignore_non_posts\<close> true, the slug \<^verbatim>\<open>about\<close> that names
  no post and names the page 7 resolves to \<^verbatim>\<open>None\<close> after a single request, not to 7.
\<close>

theorem resolve_page_only_slug_counterexample:
  "resolve_slug_to_id page_only_site ''https://example.com'' ''about'' True 3 0
     = (Inr JNull, 1)
   \<and> resolve_slug_to_id page_only_site ''https://example.com'' ''about'' False 3 0
     = (Inr (JNum 7), 2)"
  by (simp add: resolve_slug_to_id_def resolve_try_def get_json_def page_only_site_def
      first_id_def slug_url_def numeral_3_eq_3)

text \<open>
  C1, amended. When the lookup among posts is answered with an empty (falsy) body and
  \<^verbatim>\<open>ignore_non_posts\<close> is true, \<^verbatim>\<open>resolve_slug_to_id\<close> returns \<^verbatim>\<open>None\<close> after that one
  request, whatever the site holds under \<^verbatim>\<open>pages\<close> and \<^verbatim>\<open>categories\<close>; the conversion
  loop of \<^verbatim>\<open>main\<close> then logs the reference as not found and leaves the article's list
  of outgoing links as it was.
\<close>

theorem page_only_slug_not_found:
  assumes "get_json net t (slug_url base_url ''posts'' slug) = Inr posts"
    and "\<not> truthy posts"
  shows "resolve_slug_to_id net base_url slug True 3 t = (Inr JNull, t + 1)
    \<and> convert_link net base_url True all_posts pid (links, log, t) (Slug slug)
        = Inr (links, log @ [NotFound (Slug slug) pid], t + 1)"
proof -
  have r: "resolve_slug_to_id net base_url slug True 3 t = (Inr JNull, t + 1)"
    using resolve_try_no_post [OF assms]
    by (simp add: resolve_slug_to_id_def numeral_3_eq_3)
  then show ?thesis
    by (simp add: convert_link_def linked_post_id_def)
qed

theorem page_only_slug_not_found_witness:
  "get_json page_only_site 0 (slug_url ''https://example.com'' ''posts'' ''about'') = Inr (JArr [])
   \<and> \<not> truthy (JArr [])
   \<and> resolve_slug_to_id page_only_site ''https://example.com'' ''about'' True 3 0
       = (Inr JNull, 1)
   \<and> convert_link page_only_site ''https://example.com'' True
        [\<lparr>post_id = JNum 5, post_slug = JStr ''home''\<rparr>] (JNum 5) ([], [], 0) (Slug ''about'')
       = Inr ([], [NotFound (Slug ''about'') (JNum 5)], 1)"
proof -
  have a: "get_json page_only_site 0 (slug_url ''https://example.com'' ''posts'' ''about'')
             = Inr (JArr [])"
    by (simp add: get_json_def page_only_site_def slug_url_def)
  have b: "\<not> truthy (JArr [])" by simp
  from page_only_slug_not_found [OF a b] a b show ?thesis by simp
qed

section \<open>The conversion loop of main\<close>

text \<open>
  C10. A reference whose identifier comes out as the integer 0, read from the structured
  field or resolved from a slug, fails the test \<^verbatim>\<open>if linked_post_id:\<close>: it is logged as
  not found and the article's list of outgoing links is left as it was.
\<close>

theorem zero_identifier_is_unresolved:
  assumes "linked_post_id net base_url ignore_non_posts t l = (Inr (JNum 0), t')"
  shows "convert_link net base_url ignore_non_posts all_posts pid (links, log, t) l
           = Inr (links, log @ [NotFound l pid], t')"
  using assms by (simp add: convert_link_def)

theorem zero_identifier_is_unresolved_witness:
  "linked_post_id zero_id_site ''https://example.com'' False 0 (Slug ''zero'') = (Inr (JNum 0), 1)
   \<and> linked_post_id zero_id_site ''https://example.com'' False 1 (Ident 0) = (Inr (JNum 0), 1)
   \<and> convert_links zero_id_site ''https://example.com'' False
        [\<lparr>post_id = JNum 0, post_slug = JStr ''zero''\<rparr>] (JNum 0) ([], [], 0)
        [Slug ''zero'', Ident 0]
       = Inr ([], [NotFound (Slug ''zero'') (JNum 0), NotFound (Ident 0) (JNum 0)], 1)"
proof -
  have a: "linked_post_id zero_id_site ''https://example.com'' False 0 (Slug ''zero'')
             = (Inr (JNum 0), 1)"
    by (simp add: linked_post_id_def resolve_slug_to_id_def resolve_try_def get_json_def
        zero_id_site_def first_id_def numeral_3_eq_3)
  have b: "linked_post_id zero_id_site ''https://example.com'' False 1 (Ident 0)
             = (Inr (JNum 0), 1)"
    by (simp add: linked_post_id_def)
  from zero_identifier_is_unresolved [OF a] zero_identifier_is_unresolved [OF b] a b
  show ?thesis by simp
qed

section \<open>Article discovery\<close>




















section \<open>Slugs of paths\<close>














section \<open>Links of the content\<close>


text \<open>
  The extension is tested on the path as it is, before the slashes are stripped: a path
  that ends with a slash after the file name is not skipped.
\<close>

lemma extract_internal_links_file_with_slash:
  \<open>extract_internal_links ''<a href="https://example.com/files/report.pdf/">x</a>''
     ''https://example.com'' = [''report.pdf'']\<close>
  by code_simp


section \<open>Links of the structured field\<close>

text \<open>The examples of the structured field: a string, a list, an absent field.\<close>

lemma extract_acf_links_examples:
  "extract_acf_links (JObj [(''related-posts'', JStr ''12, 34, bad, 56'')]) ''related-posts''
     = [12, 34, 56]"
  "extract_acf_links (JObj [(''related-posts'', JArr [JNum 12, JStr ''34'', JStr ''x''])])
     ''related-posts'' = [12, 34]"
  "extract_acf_links (JObj [(''other'', JStr ''1'')]) ''related-posts'' = []"
  by code_simp+

text \<open>
  C7, at the input where it fails. The list holds 12 and the string made of the
  superscript two: \<^verbatim>\<open>isdigit\<close> accepts that string, \<^verbatim>\<open>int\<close> raises \<^verbatim>\<open>ValueError\<close> on
  it, and the handler returns the empty list, so that 12 is lost as well. The same
  happens in a comma-separated string.
\<close>

theorem extract_acf_links_superscript_digit:
  "extract_acf_links (JObj [(''related-posts'', JArr [JNum 12, JStr [CHR 0xB2]])])
     ''related-posts'' = []
   \<and> extract_acf_links (JObj [(''related-posts'', JStr (''12, '' @ [CHR 0xB2] @ '', 34''))])
        ''related-posts'' = []
   \<and> py_isdigit [CHR 0xB2] \<and> py_int [CHR 0xB2] = Inl ValueError"
  by code_simp

section \<open>The run over the sites\<close>

lemma run_sites_append:
  "run_sites cfg sort_values net written t (xs @ ys) =
     (case run_sites cfg sort_values net written t xs of
        (written', t', None) \<Rightarrow> run_sites cfg sort_values net written' t' ys
      | (written', t', Some e) \<Rightarrow> (written', t', Some e))"
proof (induction xs arbitrary: written t)
  case Nil
  then show ?case by simp
next
  case (Cons x xs)
  show ?case
  proof (cases "process_site cfg sort_values net x t")
    case (Inl e)
    then show ?thesis by simp
  next
    case (Inr r)
    obtain csv t' where r: "r = (csv, t')" by (cases r)
    show ?thesis
      using Inr r Cons.IH by (cases csv) simp_all
  qed
qed

text \<open>
  C9, as stated, fails: with the two sites configured in this order, the error raised
  while the first is processed ends the run, and no report is written for the second,
  which on its own is processed without error.
\<close>

theorem main_error_skips_remaining_sites_counterexample:
  "main two_sites_config (\<lambda>rows. rows) two_sites_net = ([], Some NameError)
   \<and> main (two_sites_config\<lparr>SITES := [site_two]\<rparr>) (\<lambda>rows. rows) two_sites_net
       = ([(''two_links.csv'',
            [\<lparr>row_post_id = JNum 5, row_post_slug = JStr ''home'', outgoing_count = 0,
              outgoing_links = [], incoming_count = 0, incoming_links = []\<rparr>])], None)"
  by code_simp

text \<open>
  C9, amended. An error raised while a site is processed reaches the one handler around
  the whole loop: \<^verbatim>\<open>main\<close> ends there without raising, the reports of the sites before
  stay written, and none of the remaining sites is processed, whatever they are.
\<close>

theorem main_stops_at_first_error:
  assumes "SITES cfg = before @ site # remaining"
    and "run_sites cfg sort_values net [] 0 before = (written, t, None)"
    and "process_site cfg sort_values net site t = Inl e"
  shows "main cfg sort_values net = (written, Some e)"
proof -
  have "run_sites cfg sort_values net written t (site # remaining) = (written, t, Some e)"
    using assms(3) by simp
  then have "run_sites cfg sort_values net [] 0 (before @ site # remaining)
               = (written, t, Some e)"
    using assms(2) by (simp add: run_sites_append)
  then show ?thesis
    using assms(1) by (simp add: main_def)
qed

theorem main_stops_at_first_error_witness:
  "SITES (two_sites_config\<lparr>SITES := [site_two, site_one, site_two]\<rparr>)
     = [site_two] @ site_one # [site_two]
   \<and> run_sites (two_sites_config\<lparr>SITES := [site_two, site_one, site_two]\<rparr>)
        (\<lambda>rows. rows) two_sites_net [] 0 [site_two]
       = ([(''two_links.csv'',
            [\<lparr>row_post_id = JNum 5, row_post_slug = JStr ''home'', outgoing_count = 0,
              outgoing_links = [], incoming_count = 0, incoming_links = []\<rparr>])], 2, None)
   \<and> process_site (two_sites_config\<lparr>SITES := [site_two, site_one, site_two]\<rparr>)
        (\<lambda>rows. rows) two_sites_net site_one 2 = Inl NameError
   \<and> main (two_sites_config\<lparr>SITES := [site_two, site_one, site_two]\<rparr>)
        (\<lambda>rows. rows) two_sites_net
       = ([(''two_links.csv'',
            [\<lparr>row_post_id = JNum 5, row_post_slug = JStr ''home'', outgoing_count = 0,
              outgoing_links = [], incoming_count = 0, incoming_links = []\<rparr>])],
          Some NameError)"
proof -
  let ?cfg = "two_sites_config\<lparr>SITES := [site_two, site_one, site_two]\<rparr>"
  let ?w = "[(''two_links.csv'',
            [\<lparr>row_post_id = JNum 5, row_post_slug = JStr ''home'', outgoing_count = 0,
              outgoing_links = [], incoming_count = 0, incoming_links = []\<rparr>])]"
  have a: "SITES ?cfg = [site_two] @ site_one # [site_two]" by simp
  have b: "run_sites ?cfg (\<lambda>rows. rows) two_sites_net [] 0 [site_two] = (?w, 2, None)"
    by code_simp
  have c: "process_site ?cfg (\<lambda>rows. rows) two_sites_net site_one 2 = Inl NameError"
    by code_simp
  from main_stops_at_first_error [OF a b c] a b c show ?thesis by simp
qed

section \<open>The report\<close>

text \<open>
  What \<^verbatim>\<open>build_dataframe\<close> hands to the sort of the library: one row for each article, in
  the order of the article list, with the lengths of its two sequences as counts.
\<close>

lemma report_rows_int_keys:
  "\<exists>rows. report_rows int_keys all_posts links_per_post incoming = Inr rows
     \<and> map row_post_id rows = map post_id all_posts
     \<and> map incoming_count rows
         = map (\<lambda>p. length (case map_of incoming (post_id p) of None \<Rightarrow> [] | Some xs \<Rightarrow> xs))
             all_posts
     \<and> map outgoing_count rows
         = map (\<lambda>p. length (case map_of links_per_post (post_id p) of
                               None \<Rightarrow> [] | Some xs \<Rightarrow> xs))
             all_posts"
proof (induction all_posts)
  case Nil
  then show ?case by simp
next
  case (Cons p ps)
  then obtain rows where "report_rows int_keys ps links_per_post incoming = Inr rows"
    and "map row_post_id rows = map post_id ps"
    and "map incoming_count rows
         = map (\<lambda>p. length (case map_of incoming (post_id p) of None \<Rightarrow> [] | Some xs \<Rightarrow> xs)) ps"
    and "map outgoing_count rows
         = map (\<lambda>p. length (case map_of links_per_post (post_id p) of
                               None \<Rightarrow> [] | Some xs \<Rightarrow> xs)) ps"
    by blast
  then show ?case
    by (simp add: hashable_int_keys dict_find_int_keys Let_def)
qed

lemma build_dataframe_int_keys:
  assumes "all_posts \<noteq> []"
  shows "\<exists>rows. build_dataframe int_keys sort_values all_posts links_per_post incoming
                  = Inr (sort_values rows)
           \<and> map row_post_id rows = map post_id all_posts"
proof -
  from report_rows_int_keys [of all_posts links_per_post incoming] obtain rows where
    rows: "report_rows int_keys all_posts links_per_post incoming = Inr rows"
      "map row_post_id rows = map post_id all_posts"
    by blast
  from rows(2) assms have "rows \<noteq> []" by auto
  with rows have "build_dataframe int_keys sort_values all_posts links_per_post incoming
                   = Inr (sort_values rows)"
    by (simp add: build_dataframe_def)
  with rows(2) show ?thesis by blast
qed

end
